theory Spec2Isabelle
  imports Complex_Main "HOL-Library.Log_Nat"
begin

section \<open>Family data model (types.ts)\<close>

text \<open>
  \<^verbatim>\<open>interface FamilyMember { id; name; year; imageUrl; relationship?; parents?; spouse? }\<close>
  The three optional properties are options: an absent \<^verbatim>\<open>parents\<close> is \<open>None\<close>, an empty
  array is \<open>Some []\<close> (the code tests \<^verbatim>\<open>if (node.parents)\<close>, true of every array, and
  \<^verbatim>\<open>parents.length > 0\<close>).
  The selector of \<^verbatim>\<open>id\<close> is \<open>idM\<close>, since \<open>id\<close> is the identity function of HOL.
  A value of this type is the content of an object; object identity (\<^verbatim>\<open>===\<close> on
  references) is not part of it. Strings are lists of 8-bit characters, so the model
  covers the strings whose code units are below 256.
\<close>

datatype FamilyMember =
  FamilyMember (idM: string) (name: string) (year: string) (imageUrl: string)
    (relationship: "string option") (parents: "FamilyMember list option")
    (spouse: "FamilyMember option")

section \<open>Seed dataset (constants.ts)\<close>

definition INITIAL_DATA :: FamilyMember where
  "INITIAL_DATA =
     FamilyMember ''root'' ''Samuel Legacy'' ''1955'' ''https://picsum.photos/id/1062/200/200'' None
       (Some [
          FamilyMember ''p1'' ''Eleanor Rigby'' ''1925'' ''https://picsum.photos/id/338/200/200''
            (Some ''Mother'')
            (Some [FamilyMember ''gp1'' ''Father Rigby'' ''1899''
                     ''https://picsum.photos/id/1005/200/200'' (Some ''Grandfather'') None None])
            None,
          FamilyMember ''p2'' ''Arthur Legacy'' ''1928'' ''https://picsum.photos/id/1025/200/200''
            (Some ''Father'') (Some []) None])
       None"

section \<open>Degree calculator (App.tsx, calculateDegree)\<close>

text \<open>
  The closure \<^verbatim>\<open>traverse\<close> adds to the captured counter \<^verbatim>\<open>degree\<close>; the counter is passed
  in and returned. The order of the additions is the order of the source: the node's own
  outgoing edges, its parents array (the membership test, then each parent in turn), its
  spouse. An array is truthy also when empty, so \<^verbatim>\<open>if (node.parents)\<close> is the test for
  \<open>Some\<close>.
\<close>

fun traverse :: "string \<Rightarrow> FamilyMember \<Rightarrow> nat \<Rightarrow> nat" where
  "traverse targetId (FamilyMember i n y u r ps sp) degree =
     (let d1 = (if i = targetId
                then (case ps of None \<Rightarrow> degree | Some qs \<Rightarrow> degree + length qs)
                     + (case sp of None \<Rightarrow> 0 | Some s \<Rightarrow> 1)
                else degree);
          d2 = (case ps of
                  None \<Rightarrow> d1
                | Some qs \<Rightarrow>
                    fold (traverse targetId) qs
                      (if list_ex (\<lambda>p. idM p = targetId) qs then d1 + 1 else d1));
          d3 = (case sp of
                  None \<Rightarrow> d2
                | Some s \<Rightarrow> traverse targetId s (if idM s = targetId then d2 + 1 else d2))
      in d3)"

definition calculateDegree :: "FamilyMember \<Rightarrow> string \<Rightarrow> nat" where
  "calculateDegree rootM targetId = traverse targetId rootM 0"

section \<open>Decimal rendering of numbers in template strings\<close>

text \<open>
  \<^verbatim>\<open>`${n}`\<close> of an integer below \<open>10^21\<close> in absolute value is its decimal numeral, with a
  leading minus sign when negative.
\<close>

fun showNat :: "nat \<Rightarrow> string" where
  "showNat n = (if n < 10 then [''0123456789'' ! n]
                else showNat (n div 10) @ [''0123456789'' ! (n mod 10)])"

declare showNat.simps [simp del]

definition showInt :: "int \<Rightarrow> string" where
  "showInt k = (if k < 0 then CHR ''-'' # showNat (nat (- k)) else showNat (nat k))"

section \<open>Deletion (App.tsx, deleteNode and handleDeleteMember)\<close>

text \<open>
  \<^verbatim>\<open>deleteNode\<close> returns \<^verbatim>\<open>null\<close> (here \<open>None\<close>) for the target itself. Otherwise the spouse
  is replaced by the result of the recursive call (\<^verbatim>\<open>undefined\<close> when that is \<^verbatim>\<open>null\<close>), and the
  loop over a non-empty parents array pushes every non-null result onto \<^verbatim>\<open>newParents\<close>.
  The source keeps the old array and the old object when no result differs by reference
  (\<^verbatim>\<open>changed\<close>, \<^verbatim>\<open>res !== p\<close>); the content is then the same as that of the rebuilt one, so the
  content model always rebuilds.
\<close>

fun deleteNode :: "FamilyMember \<Rightarrow> string \<Rightarrow> FamilyMember option" where
  "deleteNode (FamilyMember i n y u r ps sp) targetId =
     (if i = targetId then None
      else
        let updatedSpouse = (case sp of None \<Rightarrow> None | Some s \<Rightarrow> deleteNode s targetId);
            updatedParents =
              (case ps of
                 None \<Rightarrow> None
               | Some qs \<Rightarrow>
                   if qs \<noteq> []
                   then Some (foldl (\<lambda>newParents p.
                                 case deleteNode p targetId of
                                   None \<Rightarrow> newParents
                                 | Some res \<Rightarrow> newParents @ [res]) [] qs)
                   else Some qs)
        in Some (FamilyMember i n y u r updatedParents updatedSpouse))"

text \<open>
  The component state that the handlers read and set, and what they show or log.
  \<^verbatim>\<open>editingMember\<close> (\<^verbatim>\<open>D3Member | FamilyMember | null\<close>) is kept as a member option.
\<close>

record AppState =
  data :: FamilyMember
  editingMember :: "FamilyMember option"

datatype Event = Alert string | ConsoleWarn string | ConsoleLog string | ConsoleError string

definition handleDeleteMember :: "AppState \<Rightarrow> string \<Rightarrow> AppState \<times> Event list" where
  "handleDeleteMember st i =
     (if i = idM (data st)
      then (st, [Alert ''Cannot delete the root person of the tree.''])
      else
        let degree = calculateDegree (data st) i in
        if degree > 1
        then (st, [ConsoleWarn (''Attempted to delete member '' @ i @ '' with degree ''
                                  @ showNat degree @ ''. Action blocked.'')])
        else
          (case deleteNode (data st) i of
             Some newData \<Rightarrow>
               (st\<lparr>data := newData, editingMember := None\<rparr>,
                [ConsoleLog (''Deleting member: '' @ i)])
           | None \<Rightarrow>
               (st, [ConsoleLog (''Deleting member: '' @ i),
                     ConsoleError ''Failed to generate new tree data after deletion.''])))"

section \<open>Field updates (App.tsx, updateNode)\<close>

text \<open>
  \<^verbatim>\<open>Partial<FamilyMember>\<close>: each property is absent (\<open>None\<close>) or given. For the three
  optional properties the given value may itself be \<^verbatim>\<open>undefined\<close>; a patch that gives
  \<^verbatim>\<open>undefined\<close> for one of the four required strings is outside the model. The spread
  \<^verbatim>\<open>{ ...tree, ...updates }\<close> takes every given property from \<^verbatim>\<open>updates\<close> and the others
  from \<^verbatim>\<open>tree\<close>.
\<close>

record Updates =
  u_id :: "string option"
  u_name :: "string option"
  u_year :: "string option"
  u_imageUrl :: "string option"
  u_relationship :: "string option option"
  u_parents :: "FamilyMember list option option"
  u_spouse :: "FamilyMember option option"

definition merge :: "FamilyMember \<Rightarrow> Updates \<Rightarrow> FamilyMember" where
  "merge tree updates =
     FamilyMember
       (case u_id updates of None \<Rightarrow> idM tree | Some v \<Rightarrow> v)
       (case u_name updates of None \<Rightarrow> name tree | Some v \<Rightarrow> v)
       (case u_year updates of None \<Rightarrow> year tree | Some v \<Rightarrow> v)
       (case u_imageUrl updates of None \<Rightarrow> imageUrl tree | Some v \<Rightarrow> v)
       (case u_relationship updates of None \<Rightarrow> relationship tree | Some v \<Rightarrow> v)
       (case u_parents updates of None \<Rightarrow> parents tree | Some v \<Rightarrow> v)
       (case u_spouse updates of None \<Rightarrow> spouse tree | Some v \<Rightarrow> v)"

fun updateNode :: "FamilyMember \<Rightarrow> string \<Rightarrow> Updates \<Rightarrow> FamilyMember" where
  "updateNode (FamilyMember i n y u r ps sp) targetId updates =
     (if i = targetId then merge (FamilyMember i n y u r ps sp) updates
      else
        let updatedSpouse =
              (case sp of
                 None \<Rightarrow> None
               | Some s \<Rightarrow>
                   if idM s = targetId then Some (merge s updates)
                   else Some (updateNode s targetId updates));
            updatedParents =
              (case ps of
                 None \<Rightarrow> None
               | Some qs \<Rightarrow>
                   if qs \<noteq> [] then Some (map (\<lambda>p. updateNode p targetId updates) qs)
                   else Some qs)
        in FamilyMember i n y u r updatedParents updatedSpouse)"

definition handleUpdateMember :: "AppState \<Rightarrow> string \<Rightarrow> Updates \<Rightarrow> AppState" where
  "handleUpdateMember st i updates = st\<lparr>data := updateNode (data st) i updates\<rparr>"

section \<open>The number read from a year string (parseInt)\<close>

text \<open>
  \<^verbatim>\<open>parseInt(s)\<close> with no radix: leading white space is skipped, then an optional sign,
  then the prefix \<^verbatim>\<open>0x\<close> or \<^verbatim>\<open>0X\<close> selects radix 16 (radix 10 otherwise), then the longest run of
  digits of the radix is read; with no digit the result is \<^verbatim>\<open>NaN\<close> (here \<open>None\<close>). The
  result is the mathematical integer, which is the number the program computes as long
  as it stays within \<open>2^53\<close> in absolute value.
\<close>

definition isWhiteSpace :: "char \<Rightarrow> bool" where
  "isWhiteSpace c = ((of_char c :: nat) \<in> {9, 10, 11, 12, 13, 32, 160})"

definition digitValue :: "char \<Rightarrow> nat option" where
  "digitValue c =
     (let k = (of_char c :: nat) in
      if 48 \<le> k \<and> k \<le> 57 then Some (k - 48)
      else if 97 \<le> k \<and> k \<le> 122 then Some (k - 87)
      else if 65 \<le> k \<and> k \<le> 90 then Some (k - 55)
      else None)"

definition isDigitOf :: "nat \<Rightarrow> char \<Rightarrow> bool" where
  "isDigitOf R c = (case digitValue c of None \<Rightarrow> False | Some d \<Rightarrow> d < R)"

definition parseInt :: "string \<Rightarrow> int option" where
  "parseInt str =
     (let S = dropWhile isWhiteSpace str;
          sign = (if S \<noteq> [] \<and> hd S = CHR ''-'' then - 1 else (1::int));
          S1 = (if S \<noteq> [] \<and> (hd S = CHR ''+'' \<or> hd S = CHR ''-'') then tl S else S);
          hex = (take 2 S1 = ''0x'' \<or> take 2 S1 = ''0X'');
          R = (if hex then 16 else 10);
          S2 = (if hex then drop 2 S1 else S1);
          Z = takeWhile (isDigitOf R) S2
      in if Z = [] then None
         else Some (sign * int (foldl (\<lambda>acc c. acc * R + the (digitValue c)) 0 Z)))"

section \<open>Adding an ancestor (App.tsx, addParentToNode)\<close>

text \<open>
  The id of the new node is \<^verbatim>\<open>`new-${Date.now()}-${Math.random()...}`\<close>, read from the clock
  and the random generator; the model takes the string that this expression yields as
  the argument \<open>newId\<close>.
\<close>

definition newParent :: "string \<Rightarrow> FamilyMember \<Rightarrow> FamilyMember" where
  "newParent newId current =
     FamilyMember newId ''New Ancestor''
       (case parseInt (year current) of None \<Rightarrow> ''NaN'' | Some k \<Rightarrow> showInt (k - 25))
       ''https://picsum.photos/200'' (Some ''Parent'') (Some []) None"

fun addParentToNode :: "string \<Rightarrow> FamilyMember \<Rightarrow> string \<Rightarrow> FamilyMember" where
  "addParentToNode newId (FamilyMember i n y u r ps sp) targetId =
     (if i = targetId
      then FamilyMember i n y u r
             (Some ((case ps of None \<Rightarrow> [] | Some qs \<Rightarrow> qs)
                    @ [newParent newId (FamilyMember i n y u r ps sp)]))
             sp
      else
        let updatedSpouse =
              (case sp of None \<Rightarrow> None | Some s \<Rightarrow> Some (addParentToNode newId s targetId));
            updatedParents =
              (case ps of
                 None \<Rightarrow> None
               | Some qs \<Rightarrow>
                   if qs \<noteq> [] then Some (map (\<lambda>p. addParentToNode newId p targetId) qs)
                   else Some qs)
        in FamilyMember i n y u r updatedParents updatedSpouse)"

definition handleAddParent :: "string \<Rightarrow> AppState \<Rightarrow> string \<Rightarrow> AppState" where
  "handleAddParent newId st i = st\<lparr>data := addParentToNode newId (data st) i\<rparr>"

section \<open>Adding a spouse (App.tsx, addSpouseToNode)\<close>

text \<open>
  \<^verbatim>\<open>addSpouseToNode\<close> returns the tree and may call \<^verbatim>\<open>alert\<close> on the way: the result is the
  tree (the first component) together with the alerts raised, in order (the spouse is
  visited before the parents). The id \<^verbatim>\<open>`spouse-${Date.now()}`\<close> of the new node is the
  argument \<open>newId\<close>.
\<close>

definition newSpouse :: "string \<Rightarrow> FamilyMember \<Rightarrow> FamilyMember" where
  "newSpouse newId current =
     FamilyMember newId ''New Spouse'' (year current) ''https://picsum.photos/200''
       (Some ''Spouse'') (Some []) None"

fun addSpouseToNode :: "string \<Rightarrow> FamilyMember \<Rightarrow> string \<Rightarrow> FamilyMember \<times> Event list" where
  "addSpouseToNode newId (FamilyMember i n y u r ps sp) targetId =
     (if i = targetId
      then (case sp of
              Some s \<Rightarrow> (FamilyMember i n y u r ps sp, [Alert ''This member already has a spouse.''])
            | None \<Rightarrow>
                (FamilyMember i n y u r ps
                   (Some (newSpouse newId (FamilyMember i n y u r ps sp))), []))
      else
        let updatedSpouse =
              (case sp of
                 None \<Rightarrow> None
               | Some s \<Rightarrow> Some (fst (addSpouseToNode newId s targetId)));
            updatedParents =
              (case ps of
                 None \<Rightarrow> None
               | Some qs \<Rightarrow>
                   if qs \<noteq> [] then Some (map (\<lambda>p. fst (addSpouseToNode newId p targetId)) qs)
                   else Some qs)
        in (FamilyMember i n y u r updatedParents updatedSpouse,
            (case sp of None \<Rightarrow> [] | Some s \<Rightarrow> snd (addSpouseToNode newId s targetId))
            @ (case ps of
                 None \<Rightarrow> []
               | Some qs \<Rightarrow> concat (map (\<lambda>p. snd (addSpouseToNode newId p targetId)) qs))))"

definition handleAddSpouse :: "string \<Rightarrow> AppState \<Rightarrow> string \<Rightarrow> AppState \<times> Event list" where
  "handleAddSpouse newId st i =
     (let r = addSpouseToNode newId (data st) i in (st\<lparr>data := fst r\<rparr>, snd r))"

section \<open>Observations on trees\<close>

text \<open>
  \<open>flatten\<close> lists the nodes of a tree: the node, then the nodes of its spouse, then those
  of each parent in order. \<open>ids\<close> are their ids; an id is present in a tree when it is in
  \<open>ids\<close>.
\<close>

fun flatten :: "FamilyMember \<Rightarrow> FamilyMember list" where
  "flatten (FamilyMember i n y u r ps sp) =
     FamilyMember i n y u r ps sp
     # (case sp of None \<Rightarrow> [] | Some s \<Rightarrow> flatten s)
     @ (case ps of None \<Rightarrow> [] | Some qs \<Rightarrow> concat (map flatten qs))"

definition ids :: "FamilyMember \<Rightarrow> string list" where
  "ids t = map idM (flatten t)"

text \<open>
  \<open>findNode t i\<close> is the first node with id \<open>i\<close> in that order, the node with id \<open>i\<close>
  when ids are unique. It is a node that no node with the same id lies above.
\<close>

definition findNode :: "FamilyMember \<Rightarrow> string \<Rightarrow> FamilyMember option" where
  "findNode t i = find (\<lambda>n. idM n = i) (flatten t)"

text \<open>
  \<open>eraseFields i t\<close> blanks the four display fields of every node of \<open>t\<close> whose id is \<open>i\<close>
  and keeps everything else: the ids, the fields of the other nodes, the parents arrays
  with their order, the spouse links. Two trees with the same \<open>eraseFields i\<close> differ at
  most in the display fields of the nodes with id \<open>i\<close>.
\<close>

fun eraseFields :: "string \<Rightarrow> FamilyMember \<Rightarrow> FamilyMember" where
  "eraseFields i (FamilyMember j n y u r ps sp) =
     (if j = i
      then FamilyMember j [] [] [] None
             (map_option (map (eraseFields i)) ps) (map_option (eraseFields i) sp)
      else FamilyMember j n y u r
             (map_option (map (eraseFields i)) ps) (map_option (eraseFields i) sp))"

text \<open>The empty patch \<^verbatim>\<open>{}\<close>, and \<^verbatim>\<open>current.parents || []\<close>.\<close>

definition emptyUpdates :: Updates where
  "emptyUpdates = \<lparr>u_id = None, u_name = None, u_year = None, u_imageUrl = None,
     u_relationship = None, u_parents = None, u_spouse = None\<rparr>"

definition parentsOrEmpty :: "FamilyMember \<Rightarrow> FamilyMember list" where
  "parentsOrEmpty t = (case parents t of None \<Rightarrow> [] | Some qs \<Rightarrow> qs)"

text \<open>
  \<open>targets t i\<close> are the nodes at which a traversal for \<open>i\<close> stops: the nodes with id \<open>i\<close>
  that have no node with id \<open>i\<close> above them, in the order of the visit.
\<close>

fun targets :: "FamilyMember \<Rightarrow> string \<Rightarrow> FamilyMember list" where
  "targets (FamilyMember j n y u r ps sp) i =
     (if j = i then [FamilyMember j n y u r ps sp]
      else (case sp of None \<Rightarrow> [] | Some s \<Rightarrow> targets s i)
           @ (case ps of None \<Rightarrow> [] | Some qs \<Rightarrow> concat (map (\<lambda>q. targets q i) qs)))"

section \<open>Double-precision arithmetic of JavaScript numbers\<close>

text \<open>
  A JavaScript number is an IEEE-754 binary64 value, and \<^verbatim>\<open>+\<close>, \<^verbatim>\<open>-\<close>, \<^verbatim>\<open>/\<close> and a decimal
  literal give the exact real result rounded to the nearest such value, ties to the
  even significand. \<open>fl\<close> is that rounding on the reals: 53 significant bits from
  \<open>2^-1022\<close> upwards (\<open>binade x\<close> is the exponent of \<open>x\<close> above \<open>-1022\<close>), the fixed spacing
  \<open>2^-1074\<close> below. Overflow to \<^verbatim>\<open>Infinity\<close> and \<^verbatim>\<open>NaN\<close> are not part of the model, which is
  the arithmetic of the finite numbers.
\<close>

definition roundEven :: "real \<Rightarrow> int" where
  "roundEven t =
     (let n = \<lfloor>t\<rfloor>; r = t - of_int n
      in if r < 1 / 2 then n else if 1 / 2 < r then n + 1 else if even n then n else n + 1)"

definition binade :: "real \<Rightarrow> nat" where
  "binade x = nat (bitlen \<lfloor>x * 2 ^ 1022\<rfloor> - 1)"

definition flPos :: "real \<Rightarrow> real" where
  "flPos x = of_int (roundEven (x * 2 ^ 1074 / 2 ^ binade x)) * 2 ^ binade x / 2 ^ 1074"

definition fl :: "real \<Rightarrow> real" where
  "fl x = (if x < 0 then - flPos (- x) else flPos x)"

definition fadd :: "real \<Rightarrow> real \<Rightarrow> real" where
  "fadd x y = fl (x + y)"

definition fsub :: "real \<Rightarrow> real \<Rightarrow> real" where
  "fsub x y = fl (x - y)"

definition fdiv :: "real \<Rightarrow> real \<Rightarrow> real" where
  "fdiv x y = fl (x / y)"

section \<open>Layout nodes (LegacyTree.tsx)\<close>


section \<open>Sibling separation (LegacyTree.tsx, the two separation callbacks)\<close>

text \<open>
  \<^verbatim>\<open>a.data.spouseTreeWidth || 0\<close> is 0 for an absent width. Every literal and every
  operation is rounded as the program rounds it: \<^verbatim>\<open>1.1\<close>, \<^verbatim>\<open>1.3\<close> and \<^verbatim>\<open>0.8\<close> are the nearest
  doubles, \<^verbatim>\<open>sep += 0.8\<close> and the final sum are double additions, and the width term is
  a double addition followed by a double division by 270. The callback given to the
  main tree layout and the one given to a spouse sub-tree layout are written out
  separately in the source, and so here.
\<close>

definition orZero :: "real option \<Rightarrow> real" where
  "orZero w = (case w of None \<Rightarrow> 0 | Some v \<Rightarrow> v)"



section \<open>Expansion set (LegacyTree.tsx, toggleSpouse)\<close>

text \<open>
  A \<^verbatim>\<open>Set<string>\<close> is the list of its elements in insertion order, without repetition.
  \<^verbatim>\<open>new Set(iterable)\<close> adds the elements one by one; \<^verbatim>\<open>add\<close> appends a new element and
  leaves the set alone when the element is there; \<^verbatim>\<open>delete\<close> removes it.
  \<^verbatim>\<open>toggleSpouse\<close> reads the state \<^verbatim>\<open>expandedSpouseIds\<close> and sets it to the new set, which
  is returned here.
\<close>

definition Set_add :: "string list \<Rightarrow> string \<Rightarrow> string list" where
  "Set_add s v = (if v \<in> set s then s else s @ [v])"

definition Set_new :: "string list \<Rightarrow> string list" where
  "Set_new iterable = foldl Set_add [] iterable"

definition Set_has :: "string list \<Rightarrow> string \<Rightarrow> bool" where
  "Set_has s v = (v \<in> set s)"

definition Set_delete :: "string list \<Rightarrow> string \<Rightarrow> string list" where
  "Set_delete s v = removeAll v s"

definition toggleSpouse :: "string list \<Rightarrow> string \<Rightarrow> string list" where
  "toggleSpouse expandedSpouseIds i =
     (let newSet = Set_new expandedSpouseIds
      in if Set_has newSet i then Set_delete newSet i else Set_add newSet i)"

section \<open>Properties\<close>

text \<open>
  C2, as the code has it: on the seed dataset the degree calculator returns 1 for
  \<^verbatim>\<open>"p2"\<close> (one reference from the root's parents array, nothing outgoing), not 2.
\<close>

theorem C2_degree_p2_is_one: "calculateDegree INITIAL_DATA ''p2'' = 1"
  by (simp add: calculateDegree_def INITIAL_DATA_def)

text \<open>C2 as stated (the degree of \<^verbatim>\<open>"p2"\<close> is 2) is false on the seed dataset.\<close>

theorem C2_degree_p2_counterexample: "calculateDegree INITIAL_DATA ''p2'' \<noteq> 2"
  by (simp add: calculateDegree_def INITIAL_DATA_def)


text \<open>
  C1, as the code has it: on the seed dataset the degree of \<^verbatim>\<open>"p1"\<close> is 2 (one reference
  from the root's parents array and one outgoing edge to Father Rigby), so the delete
  request for \<^verbatim>\<open>"p1"\<close> is blocked by the degree guard: the state is unchanged, a
  warning is logged, and Eleanor Rigby and Father Rigby are both still in the tree.
\<close>

theorem C1_delete_p1_blocked:
  "calculateDegree INITIAL_DATA ''p1'' = 2 \<and>
   handleDeleteMember \<lparr>data = INITIAL_DATA, editingMember = e\<rparr> ''p1'' =
     (\<lparr>data = INITIAL_DATA, editingMember = e\<rparr>,
      [ConsoleWarn ''Attempted to delete member p1 with degree 2. Action blocked.'']) \<and>
   ''p1'' \<in> set (ids INITIAL_DATA) \<and> ''gp1'' \<in> set (ids INITIAL_DATA)"
  by (simp add: handleDeleteMember_def calculateDegree_def INITIAL_DATA_def ids_def
      showNat.simps)

text \<open>
  What \<^verbatim>\<open>deleteNode\<close> itself would return for \<^verbatim>\<open>"p1"\<close> on the seed dataset, were it
  called: the root with Arthur Legacy as its only parent.
\<close>

lemma deleteNode_seed_p1:
  "deleteNode INITIAL_DATA ''p1'' =
     Some (FamilyMember ''root'' ''Samuel Legacy'' ''1955''
             ''https://picsum.photos/id/1062/200/200'' None
             (Some [FamilyMember ''p2'' ''Arthur Legacy'' ''1928''
                      ''https://picsum.photos/id/1025/200/200'' (Some ''Father'') (Some []) None])
             None)"
  by (simp add: INITIAL_DATA_def)

text \<open>
  C1 as stated is false: the degree of \<^verbatim>\<open>"p1"\<close> is not 1, and after the delete request
  the tree still holds \<^verbatim>\<open>"p1"\<close> and \<^verbatim>\<open>"gp1"\<close>.
\<close>

theorem C1_delete_p1_counterexample:
  "\<not> (calculateDegree INITIAL_DATA ''p1'' = 1 \<and>
      ''p1'' \<notin> set (ids (data (fst (handleDeleteMember
                 \<lparr>data = INITIAL_DATA, editingMember = None\<rparr> ''p1'')))) \<and>
      ''gp1'' \<notin> set (ids (data (fst (handleDeleteMember
                 \<lparr>data = INITIAL_DATA, editingMember = None\<rparr> ''p1'')))))"
  by (simp add: calculateDegree_def INITIAL_DATA_def)

text \<open>
  C3: a delete request for an id whose degree is greater than 1, or for the root's id,
  is rejected: the state (the tree and the member being edited) is returned unchanged
  and the only effect is the notice (an alert for the root, a console warning for the
  degree guard). The root's id is rejected whatever its degree.
\<close>

theorem C3_delete_rejected:
  "(calculateDegree (data st) i > 1 \<or> i = idM (data st) \<longrightarrow>
      fst (handleDeleteMember st i) = st \<and>
      snd (handleDeleteMember st i) =
        (if i = idM (data st)
         then [Alert ''Cannot delete the root person of the tree.'']
         else [ConsoleWarn (''Attempted to delete member '' @ i @ '' with degree ''
                 @ showNat (calculateDegree (data st) i) @ ''. Action blocked.'')])) \<and>
   handleDeleteMember st (idM (data st)) =
     (st, [Alert ''Cannot delete the root person of the tree.''])"
  by (simp add: handleDeleteMember_def Let_def)

theorem C3_delete_rejected_witness:
  "calculateDegree INITIAL_DATA ''p1'' > 1 \<and>
   fst (handleDeleteMember \<lparr>data = INITIAL_DATA, editingMember = None\<rparr> ''p1'') =
     \<lparr>data = INITIAL_DATA, editingMember = None\<rparr> \<and>
   handleDeleteMember \<lparr>data = INITIAL_DATA, editingMember = None\<rparr> ''root'' =
     (\<lparr>data = INITIAL_DATA, editingMember = None\<rparr>,
      [Alert ''Cannot delete the root person of the tree.''])"
proof -
  have deg: "calculateDegree INITIAL_DATA ''p1'' > 1"
    by (simp add: calculateDegree_def INITIAL_DATA_def)
  have root: "idM INITIAL_DATA = ''root''"
    by (simp add: INITIAL_DATA_def)
  from deg root
    C3_delete_rejected [of "\<lparr>data = INITIAL_DATA, editingMember = None\<rparr>" "''p1''"]
  show ?thesis by simp
qed

subsection \<open>Lookup in a tree\<close>

lemma find_app: "find P (xs @ ys) = (case find P xs of Some x \<Rightarrow> Some x | None \<Rightarrow> find P ys)"
  by (induction xs) auto

lemma self_in_flatten: "t \<in> set (flatten t)"
  by (cases t) simp

lemma idM_in_ids: "idM t \<in> set (ids t)"
  using self_in_flatten [of t] by (auto simp: ids_def)

lemma ids_node:
  "set (ids (FamilyMember i n y u r ps sp)) =
     insert i ((case sp of None \<Rightarrow> {} | Some s \<Rightarrow> set (ids s))
               \<union> (case ps of None \<Rightarrow> {} | Some qs \<Rightarrow> (\<Union>q\<in>set qs. set (ids q))))"
  by (auto simp: ids_def split: option.splits)

lemma findNode_hit: "idM t = i \<Longrightarrow> findNode t i = Some t"
  by (cases t) (simp add: findNode_def)

lemma findNode_miss:
  "idM t \<noteq> i \<Longrightarrow>
   findNode t i =
     (case (case spouse t of None \<Rightarrow> None | Some s \<Rightarrow> findNode s i) of
        Some x \<Rightarrow> Some x
      | None \<Rightarrow> (case parents t of
                   None \<Rightarrow> None
                 | Some qs \<Rightarrow> find (\<lambda>n. idM n = i) (concat (map flatten qs))))"
  by (cases t) (auto simp: findNode_def find_app split: option.splits)

lemma find_parents_map:
  assumes "\<And>q. q \<in> set qs \<Longrightarrow> findNode (f q) i = map_option g (findNode q i)"
  shows "find (\<lambda>n. idM n = i) (concat (map (\<lambda>q. flatten (f q)) qs))
         = map_option g (find (\<lambda>n. idM n = i) (concat (map flatten qs)))"
  using assms
proof (induction qs)
  case Nil
  then show ?case by simp
next
  case (Cons q qs)
  have hd: "find (\<lambda>n. idM n = i) (flatten (f q)) = map_option g (find (\<lambda>n. idM n = i) (flatten q))"
    using Cons.prems [of q] by (simp add: findNode_def)
  have tl: "find (\<lambda>n. idM n = i) (concat (map (\<lambda>q. flatten (f q)) qs))
         = map_option g (find (\<lambda>n. idM n = i) (concat (map flatten qs)))"
    by (rule Cons.IH) (simp add: Cons.prems)
  show ?case
    by (simp add: find_app hd tl split: option.splits)
qed

lemma findNode_None_iff: "findNode t i = None \<longleftrightarrow> i \<notin> set (ids t)"
  by (auto simp: findNode_def ids_def find_None_iff)

subsection \<open>updateNode\<close>

lemma updateNode_hit: "idM t = targetId \<Longrightarrow> updateNode t targetId updates = merge t updates"
  by (cases t) simp

lemma updateNode_miss:
  "idM t \<noteq> targetId \<Longrightarrow>
   updateNode t targetId updates =
     FamilyMember (idM t) (name t) (year t) (imageUrl t) (relationship t)
       (map_option (map (\<lambda>p. updateNode p targetId updates)) (parents t))
       (map_option (\<lambda>s. updateNode s targetId updates) (spouse t))"
  by (cases t) (auto simp: Let_def updateNode_hit split: option.splits)

lemma updateNode_absent:
  "targetId \<notin> set (ids t) \<Longrightarrow> updateNode t targetId updates = t"
proof (induction t)
  case (FamilyMember i n y u r ps sp)
  have sp: "map_option (\<lambda>s. updateNode s targetId updates) sp = sp"
    using FamilyMember by (cases sp) (auto simp: ids_node)
  have ps: "map_option (map (\<lambda>p. updateNode p targetId updates)) ps = ps"
    using FamilyMember by (cases ps) (auto simp: ids_node intro!: map_idI)
  from FamilyMember.prems have "i \<noteq> targetId" by (auto simp: ids_node)
  then show ?case
    by (simp add: updateNode_miss sp ps del: updateNode.simps)
qed

lemma merge_empty: "merge t emptyUpdates = t"
  by (cases t) (simp add: merge_def emptyUpdates_def)

lemma updateNode_empty: "updateNode t i emptyUpdates = t"
proof (induction t)
  case (FamilyMember j n y u r ps sp)
  show ?case
  proof (cases "j = i")
    case True
    then show ?thesis by (simp add: merge_empty del: updateNode.simps add: updateNode_hit)
  next
    case False
    have sp: "map_option (\<lambda>s. updateNode s i emptyUpdates) sp = sp"
      using FamilyMember by (cases sp) auto
    have ps: "map_option (map (\<lambda>p. updateNode p i emptyUpdates)) ps = ps"
      using FamilyMember by (cases ps) (auto intro!: map_idI)
    from False show ?thesis
      by (simp add: updateNode_miss sp ps del: updateNode.simps)
  qed
qed

lemma idM_merge: "u_id updates = None \<Longrightarrow> idM (merge t updates) = idM t"
  by (simp add: merge_def)

lemma updateNode_find:
  "u_id updates = None \<Longrightarrow>
   findNode (updateNode t i updates) i = map_option (\<lambda>n. merge n updates) (findNode t i)"
proof (induction t)
  case (FamilyMember j n y u r ps sp)
  let ?t = "FamilyMember j n y u r ps sp"
  show ?case
  proof (cases "j = i")
    case True
    then show ?thesis
      using FamilyMember.prems
      by (simp add: updateNode_hit findNode_hit idM_merge del: updateNode.simps)
  next
    case False
    have sp: "\<And>s. sp = Some s \<Longrightarrow>
        findNode (updateNode s i updates) i = map_option (\<lambda>n. merge n updates) (findNode s i)"
      using FamilyMember by auto
    have ps: "\<And>qs. ps = Some qs \<Longrightarrow>
        find (\<lambda>n. idM n = i) (concat (map (\<lambda>q. flatten (updateNode q i updates)) qs))
        = map_option (\<lambda>n. merge n updates) (find (\<lambda>n. idM n = i) (concat (map flatten qs)))"
      using FamilyMember by (intro find_parents_map) auto
    from False show ?thesis
      by (simp add: updateNode_miss findNode_miss sp ps comp_def del: updateNode.simps
               split: option.splits)
  qed
qed

lemma eraseFields_merge:
  "u_id updates = None \<Longrightarrow> u_parents updates = None \<Longrightarrow> u_spouse updates = None \<Longrightarrow>
   eraseFields (idM t) (merge t updates) = eraseFields (idM t) t"
  by (cases t) (simp add: merge_def)

lemma eraseFields_miss:
  "idM t \<noteq> i \<Longrightarrow>
   eraseFields i t =
     FamilyMember (idM t) (name t) (year t) (imageUrl t) (relationship t)
       (map_option (map (eraseFields i)) (parents t)) (map_option (eraseFields i) (spouse t))"
  by (cases t) simp

lemma updateNode_erase:
  "u_id updates = None \<Longrightarrow> u_parents updates = None \<Longrightarrow> u_spouse updates = None \<Longrightarrow>
   eraseFields i (updateNode t i updates) = eraseFields i t"
proof (induction t)
  case (FamilyMember j n y u r ps sp)
  show ?case
  proof (cases "j = i")
    case True
    then show ?thesis
      using FamilyMember.prems eraseFields_merge [of updates "FamilyMember j n y u r ps sp"]
      by (simp add: updateNode_hit del: updateNode.simps eraseFields.simps)
  next
    case False
    have sp: "map_option (eraseFields i) (map_option (\<lambda>s. updateNode s i updates) sp)
              = map_option (eraseFields i) sp"
      using FamilyMember by (cases sp) auto
    have ps: "map_option (map (eraseFields i)) (map_option (map (\<lambda>p. updateNode p i updates)) ps)
              = map_option (map (eraseFields i)) ps"
      using FamilyMember by (cases ps) auto
    from False show ?thesis
      by (simp add: updateNode_miss eraseFields_miss sp ps del: updateNode.simps eraseFields.simps)
  qed
qed

subsection \<open>addParentToNode\<close>

lemma addParent_hit:
  "idM t = i \<Longrightarrow>
   addParentToNode newId t i =
     FamilyMember (idM t) (name t) (year t) (imageUrl t) (relationship t)
       (Some ((case parents t of None \<Rightarrow> [] | Some qs \<Rightarrow> qs) @ [newParent newId t]))
       (spouse t)"
  by (cases t) simp

lemma addParent_miss:
  "idM t \<noteq> i \<Longrightarrow>
   addParentToNode newId t i =
     FamilyMember (idM t) (name t) (year t) (imageUrl t) (relationship t)
       (map_option (map (\<lambda>p. addParentToNode newId p i)) (parents t))
       (map_option (\<lambda>s. addParentToNode newId s i) (spouse t))"
  by (cases t) (auto simp: Let_def split: option.splits)

lemma idM_addParent: "idM (addParentToNode newId t i) = idM t"
  by (cases "idM t = i") (simp_all add: addParent_hit addParent_miss del: addParentToNode.simps)

lemma addParent_absent:
  "i \<notin> set (ids t) \<Longrightarrow> addParentToNode newId t i = t"
proof (induction t)
  case (FamilyMember j n y u r ps sp)
  have sp: "map_option (\<lambda>s. addParentToNode newId s i) sp = sp"
    using FamilyMember by (cases sp) (auto simp: ids_node)
  have ps: "map_option (map (\<lambda>p. addParentToNode newId p i)) ps = ps"
    using FamilyMember by (cases ps) (auto simp: ids_node intro!: map_idI)
  from FamilyMember.prems have "j \<noteq> i" by (auto simp: ids_node)
  then show ?case
    by (simp add: addParent_miss sp ps del: addParentToNode.simps)
qed

lemma addParent_find:
  "findNode (addParentToNode newId t i) i
   = map_option (\<lambda>n. addParentToNode newId n i) (findNode t i)"
proof (induction t)
  case (FamilyMember j n y u r ps sp)
  show ?case
  proof (cases "j = i")
    case True
    then show ?thesis
      by (simp add: findNode_hit idM_addParent del: addParentToNode.simps)
  next
    case False
    have sp: "\<And>s. sp = Some s \<Longrightarrow>
        findNode (addParentToNode newId s i) i
        = map_option (\<lambda>n. addParentToNode newId n i) (findNode s i)"
      using FamilyMember by auto
    have ps: "\<And>qs. ps = Some qs \<Longrightarrow>
        find (\<lambda>n. idM n = i) (concat (map (\<lambda>q. flatten (addParentToNode newId q i)) qs))
        = map_option (\<lambda>n. addParentToNode newId n i)
            (find (\<lambda>n. idM n = i) (concat (map flatten qs)))"
      using FamilyMember by (intro find_parents_map) auto
    from False show ?thesis
      by (simp add: addParent_miss findNode_miss sp ps comp_def del: addParentToNode.simps
               split: option.splits)
  qed
qed

subsection \<open>addSpouseToNode\<close>

lemma addSpouse_hit:
  "idM t = i \<Longrightarrow>
   addSpouseToNode newId t i =
     (case spouse t of
        Some s \<Rightarrow> (t, [Alert ''This member already has a spouse.''])
      | None \<Rightarrow>
          (FamilyMember (idM t) (name t) (year t) (imageUrl t) (relationship t) (parents t)
             (Some (newSpouse newId t)), []))"
  by (cases t) (simp split: option.splits)

lemma addSpouse_miss:
  "idM t \<noteq> i \<Longrightarrow>
   addSpouseToNode newId t i =
     (FamilyMember (idM t) (name t) (year t) (imageUrl t) (relationship t)
        (map_option (map (\<lambda>p. fst (addSpouseToNode newId p i))) (parents t))
        (map_option (\<lambda>s. fst (addSpouseToNode newId s i)) (spouse t)),
      (case spouse t of None \<Rightarrow> [] | Some s \<Rightarrow> snd (addSpouseToNode newId s i))
      @ (case parents t of
           None \<Rightarrow> []
         | Some qs \<Rightarrow> concat (map (\<lambda>p. snd (addSpouseToNode newId p i)) qs)))"
  by (cases t) (auto simp: Let_def comp_def split: option.splits)

lemma idM_addSpouse: "idM (fst (addSpouseToNode newId t i)) = idM t"
  by (cases "idM t = i")
     (simp_all add: addSpouse_hit addSpouse_miss del: addSpouseToNode.simps split: option.splits)

lemma addSpouse_absent:
  "i \<notin> set (ids t) \<Longrightarrow> addSpouseToNode newId t i = (t, [])"
proof (induction t)
  case (FamilyMember j n y u r ps sp)
  have sp: "\<And>s. sp = Some s \<Longrightarrow> addSpouseToNode newId s i = (s, [])"
    using FamilyMember by (auto simp: ids_node)
  have ps: "\<And>qs q. ps = Some qs \<Longrightarrow> q \<in> set qs \<Longrightarrow> addSpouseToNode newId q i = (q, [])"
    using FamilyMember by (auto simp: ids_node)
  have ps1: "\<And>qs. ps = Some qs \<Longrightarrow> map (\<lambda>p. fst (addSpouseToNode newId p i)) qs = qs"
    using ps by (auto intro!: map_idI)
  have ps2: "\<And>qs. ps = Some qs \<Longrightarrow> concat (map (\<lambda>p. snd (addSpouseToNode newId p i)) qs) = []"
    using ps by auto
  from FamilyMember.prems have "j \<noteq> i" by (auto simp: ids_node)
  then show ?case
    by (cases sp; cases ps) (simp_all add: addSpouse_miss sp ps1 ps2 del: addSpouseToNode.simps)
qed

lemma addSpouse_find:
  "findNode (fst (addSpouseToNode newId t i)) i
   = map_option (\<lambda>n. fst (addSpouseToNode newId n i)) (findNode t i)"
proof (induction t)
  case (FamilyMember j n y u r ps sp)
  show ?case
  proof (cases "j = i")
    case True
    then show ?thesis
      by (simp add: findNode_hit idM_addSpouse del: addSpouseToNode.simps)
  next
    case False
    have sp: "\<And>s. sp = Some s \<Longrightarrow>
        findNode (fst (addSpouseToNode newId s i)) i
        = map_option (\<lambda>n. fst (addSpouseToNode newId n i)) (findNode s i)"
      using FamilyMember by auto
    have ps: "\<And>qs. ps = Some qs \<Longrightarrow>
        find (\<lambda>n. idM n = i) (concat (map (\<lambda>q. flatten (fst (addSpouseToNode newId q i))) qs))
        = map_option (\<lambda>n. fst (addSpouseToNode newId n i))
            (find (\<lambda>n. idM n = i) (concat (map flatten qs)))"
      using FamilyMember by (intro find_parents_map) auto
    from False show ?thesis
      by (simp add: addSpouse_miss findNode_miss sp ps comp_def del: addSpouseToNode.simps
               split: option.splits)
  qed
qed

subsection \<open>The mutation operations on present and absent ids\<close>

text \<open>
  C4: for a patch over the display fields (it gives no id, parents or spouse) and an id
  present in the tree, \<^verbatim>\<open>updateNode\<close> yields a tree in which the node with that id has
  the patched fields over its old ones, with its parents and spouse as before; the rest
  of the tree is as it was (the two trees agree once the display fields of the nodes
  with that id are blanked: same ids, same fields elsewhere, same parents order, same
  spouse links); and the empty patch gives back a tree with the same content.
\<close>

theorem C4_updateNode_changes_only_target:
  "u_id p = None \<and> u_parents p = None \<and> u_spouse p = None \<and> findNode T i = Some n \<longrightarrow>
     findNode (updateNode T i p) i =
       Some (FamilyMember (idM n)
               (case u_name p of None \<Rightarrow> name n | Some v \<Rightarrow> v)
               (case u_year p of None \<Rightarrow> year n | Some v \<Rightarrow> v)
               (case u_imageUrl p of None \<Rightarrow> imageUrl n | Some v \<Rightarrow> v)
               (case u_relationship p of None \<Rightarrow> relationship n | Some v \<Rightarrow> v)
               (parents n) (spouse n)) \<and>
     eraseFields i (updateNode T i p) = eraseFields i T \<and>
     updateNode T i emptyUpdates = T"
proof (intro impI)
  assume a: "u_id p = None \<and> u_parents p = None \<and> u_spouse p = None \<and> findNode T i = Some n"
  have "findNode (updateNode T i p) i = Some (merge n p)"
    using a updateNode_find [of p T i] by simp
  moreover have "eraseFields i (updateNode T i p) = eraseFields i T"
    using a by (simp add: updateNode_erase)
  ultimately show "findNode (updateNode T i p) i =
       Some (FamilyMember (idM n)
               (case u_name p of None \<Rightarrow> name n | Some v \<Rightarrow> v)
               (case u_year p of None \<Rightarrow> year n | Some v \<Rightarrow> v)
               (case u_imageUrl p of None \<Rightarrow> imageUrl n | Some v \<Rightarrow> v)
               (case u_relationship p of None \<Rightarrow> relationship n | Some v \<Rightarrow> v)
               (parents n) (spouse n)) \<and>
     eraseFields i (updateNode T i p) = eraseFields i T \<and>
     updateNode T i emptyUpdates = T"
    using a by (simp add: merge_def updateNode_empty)
qed

theorem C4_updateNode_witness:
  "findNode INITIAL_DATA ''p2'' =
     Some (FamilyMember ''p2'' ''Arthur Legacy'' ''1928'' ''https://picsum.photos/id/1025/200/200''
            (Some ''Father'') (Some []) None) \<and>
   findNode (updateNode INITIAL_DATA ''p2''
       \<lparr>u_id = None, u_name = Some ''Arthur J. Legacy'', u_year = Some ''1927'',
        u_imageUrl = None, u_relationship = Some (Some ''Dad''), u_parents = None,
        u_spouse = None\<rparr>) ''p2'' =
     Some (FamilyMember ''p2'' ''Arthur J. Legacy'' ''1927''
            ''https://picsum.photos/id/1025/200/200'' (Some ''Dad'') (Some []) None)"
proof -
  have h: "findNode INITIAL_DATA ''p2'' =
     Some (FamilyMember ''p2'' ''Arthur Legacy'' ''1928'' ''https://picsum.photos/id/1025/200/200''
            (Some ''Father'') (Some []) None)"
    by (simp add: findNode_def INITIAL_DATA_def)
  show ?thesis
    using h C4_updateNode_changes_only_target [of
        "\<lparr>u_id = None, u_name = Some ''Arthur J. Legacy'', u_year = Some ''1927'',
        u_imageUrl = None, u_relationship = Some (Some ''Dad''), u_parents = None,
        u_spouse = None\<rparr>" INITIAL_DATA "''p2''"
        "FamilyMember ''p2'' ''Arthur Legacy'' ''1928'' ''https://picsum.photos/id/1025/200/200''
            (Some ''Father'') (Some []) None"]
    by simp
qed

text \<open>
  C5: for an id that is not in the tree, \<^verbatim>\<open>updateNode\<close>, \<^verbatim>\<open>addParentToNode\<close> and
  \<^verbatim>\<open>addSpouseToNode\<close> return a tree with the content of the original, and
  \<^verbatim>\<open>addSpouseToNode\<close> raises no alert. None of the three has a failing branch.
\<close>

theorem C5_absent_id_is_noop:
  "i \<notin> set (ids T) \<Longrightarrow>
     updateNode T i p = T \<and>
     addParentToNode newId T i = T \<and>
     addSpouseToNode newId' T i = (T, [])"
  by (simp add: updateNode_absent addParent_absent addSpouse_absent)

theorem C5_absent_id_witness:
  "''p9'' \<notin> set (ids INITIAL_DATA) \<and>
   updateNode INITIAL_DATA ''p9'' \<lparr>u_id = None, u_name = Some ''X'', u_year = None,
        u_imageUrl = None, u_relationship = None, u_parents = None, u_spouse = None\<rparr>
     = INITIAL_DATA \<and>
   addParentToNode ''new-1'' INITIAL_DATA ''p9'' = INITIAL_DATA \<and>
   addSpouseToNode ''spouse-1'' INITIAL_DATA ''p9'' = (INITIAL_DATA, [])"
proof -
  have h: "''p9'' \<notin> set (ids INITIAL_DATA)"
    by (simp add: ids_def INITIAL_DATA_def)
  from h C5_absent_id_is_noop [OF h] show ?thesis by blast
qed

text \<open>
  C6: when the node with the given id has a year string that \<^verbatim>\<open>parseInt\<close> reads as \<open>Y\<close>
  (within the range where the program's arithmetic on numbers is exact),
  \<^verbatim>\<open>addParentToNode\<close> appends to that node's parents (the empty list when it had none) a
  node named "New Ancestor" with year \<open>Y - 25\<close> in decimal and relationship "Parent", and
  keeps the earlier entries in place; a second call appends a second such node after
  the first.
\<close>

theorem C6_addParent_appends:
  "findNode T i = Some n \<and> parseInt (year n) = Some Y \<and> \<bar>Y\<bar> \<le> 9007199254740967 \<longrightarrow>
     findNode (addParentToNode newId T i) i =
       Some (FamilyMember (idM n) (name n) (year n) (imageUrl n) (relationship n)
               (Some (parentsOrEmpty n
                      @ [FamilyMember newId ''New Ancestor'' (showInt (Y - 25))
                           ''https://picsum.photos/200'' (Some ''Parent'') (Some []) None]))
               (spouse n)) \<and>
     findNode (addParentToNode newId' (addParentToNode newId T i) i) i =
       Some (FamilyMember (idM n) (name n) (year n) (imageUrl n) (relationship n)
               (Some (parentsOrEmpty n
                      @ [FamilyMember newId ''New Ancestor'' (showInt (Y - 25))
                           ''https://picsum.photos/200'' (Some ''Parent'') (Some []) None,
                         FamilyMember newId' ''New Ancestor'' (showInt (Y - 25))
                           ''https://picsum.photos/200'' (Some ''Parent'') (Some []) None]))
               (spouse n))"
proof (intro impI)
  assume a: "findNode T i = Some n \<and> parseInt (year n) = Some Y \<and> \<bar>Y\<bar> \<le> 9007199254740967"
  have idn: "idM n = i"
    using a by (auto simp: findNode_def dest: find_Some_iff [THEN iffD1])
  let ?n1 = "addParentToNode newId n i"
  have n1: "?n1 = FamilyMember (idM n) (name n) (year n) (imageUrl n) (relationship n)
               (Some (parentsOrEmpty n
                      @ [FamilyMember newId ''New Ancestor'' (showInt (Y - 25))
                           ''https://picsum.photos/200'' (Some ''Parent'') (Some []) None]))
               (spouse n)"
    using a idn by (simp add: addParent_hit newParent_def parentsOrEmpty_def del: addParentToNode.simps)
  have one: "findNode (addParentToNode newId T i) i = Some ?n1"
    using a by (simp add: addParent_find del: addParentToNode.simps)
  have two: "findNode (addParentToNode newId' (addParentToNode newId T i) i) i
             = Some (addParentToNode newId' ?n1 i)"
    using one addParent_find [of newId' "addParentToNode newId T i" i] by simp
  have n2: "addParentToNode newId' ?n1 i =
       FamilyMember (idM n) (name n) (year n) (imageUrl n) (relationship n)
               (Some (parentsOrEmpty n
                      @ [FamilyMember newId ''New Ancestor'' (showInt (Y - 25))
                           ''https://picsum.photos/200'' (Some ''Parent'') (Some []) None,
                         FamilyMember newId' ''New Ancestor'' (showInt (Y - 25))
                           ''https://picsum.photos/200'' (Some ''Parent'') (Some []) None]))
               (spouse n)"
    using a idn by (subst n1) (simp add: newParent_def)
  show "findNode (addParentToNode newId T i) i =
       Some (FamilyMember (idM n) (name n) (year n) (imageUrl n) (relationship n)
               (Some (parentsOrEmpty n
                      @ [FamilyMember newId ''New Ancestor'' (showInt (Y - 25))
                           ''https://picsum.photos/200'' (Some ''Parent'') (Some []) None]))
               (spouse n)) \<and>
     findNode (addParentToNode newId' (addParentToNode newId T i) i) i =
       Some (FamilyMember (idM n) (name n) (year n) (imageUrl n) (relationship n)
               (Some (parentsOrEmpty n
                      @ [FamilyMember newId ''New Ancestor'' (showInt (Y - 25))
                           ''https://picsum.photos/200'' (Some ''Parent'') (Some []) None,
                         FamilyMember newId' ''New Ancestor'' (showInt (Y - 25))
                           ''https://picsum.photos/200'' (Some ''Parent'') (Some []) None]))
               (spouse n))"
    using one two n1 n2 by simp
qed

theorem C6_addParent_witness:
  "findNode INITIAL_DATA ''p1'' =
     Some (FamilyMember ''p1'' ''Eleanor Rigby'' ''1925'' ''https://picsum.photos/id/338/200/200''
            (Some ''Mother'')
            (Some [FamilyMember ''gp1'' ''Father Rigby'' ''1899''
                     ''https://picsum.photos/id/1005/200/200'' (Some ''Grandfather'') None None])
            None) \<and>
   parseInt ''1925'' = Some 1925 \<and>
   findNode (addParentToNode ''new-1'' INITIAL_DATA ''p1'') ''p1'' =
     Some (FamilyMember ''p1'' ''Eleanor Rigby'' ''1925'' ''https://picsum.photos/id/338/200/200''
            (Some ''Mother'')
            (Some [FamilyMember ''gp1'' ''Father Rigby'' ''1899''
                     ''https://picsum.photos/id/1005/200/200'' (Some ''Grandfather'') None None,
                   FamilyMember ''new-1'' ''New Ancestor'' ''1900''
                     ''https://picsum.photos/200'' (Some ''Parent'') (Some []) None])
            None)"
proof -
  let ?p1 = "FamilyMember ''p1'' ''Eleanor Rigby'' ''1925'' ''https://picsum.photos/id/338/200/200''
            (Some ''Mother'')
            (Some [FamilyMember ''gp1'' ''Father Rigby'' ''1899''
                     ''https://picsum.photos/id/1005/200/200'' (Some ''Grandfather'') None None])
            None"
  have h1: "findNode INITIAL_DATA ''p1'' = Some ?p1"
    by (simp add: findNode_def INITIAL_DATA_def)
  have h2: "parseInt ''1925'' = Some 1925"
    by (simp add: parseInt_def isWhiteSpace_def isDigitOf_def digitValue_def)
  have h3: "showInt (1925 - 25) = ''1900''"
    by (simp add: showInt_def showNat.simps)
  show ?thesis
    using h1 h2 h3 C6_addParent_appends [of INITIAL_DATA "''p1''" ?p1 1925 "''new-1''"]
    by (simp add: parentsOrEmpty_def del: addParentToNode.simps)
qed

subsection \<open>Where a traversal stops\<close>

lemma targets_hit: "idM t = i \<Longrightarrow> targets t i = [t]"
  by (cases t) simp

lemma targets_miss:
  "idM t \<noteq> i \<Longrightarrow>
   targets t i = (case spouse t of None \<Rightarrow> [] | Some s \<Rightarrow> targets s i)
           @ (case parents t of None \<Rightarrow> [] | Some qs \<Rightarrow> concat (map (\<lambda>q. targets q i) qs))"
  by (cases t) simp

lemma addSpouse_refused:
  "\<forall>m\<in>set (targets t i). spouse m \<noteq> None \<Longrightarrow>
   addSpouseToNode newId t i =
     (t, replicate (length (targets t i)) (Alert ''This member already has a spouse.''))"
proof (induction t)
  case (FamilyMember j n y u r ps sp)
  let ?a = "Alert ''This member already has a spouse.''"
  show ?case
  proof (cases "j = i")
    case True
    then show ?thesis
      using FamilyMember.prems by (auto simp: addSpouse_hit simp del: addSpouseToNode.simps)
  next
    case False
    have sp: "addSpouseToNode newId s i = (s, replicate (length (targets s i)) ?a)"
      if e: "sp = Some s" for s
    proof -
      have "\<forall>m\<in>set (targets s i). spouse m \<noteq> None"
        using FamilyMember.prems False e by auto
      then show ?thesis
        using FamilyMember.IH(2) [of s] e by simp
    qed
    have ps: "addSpouseToNode newId q i = (q, replicate (length (targets q i)) ?a)"
      if e: "ps = Some qs" and q: "q \<in> set qs" for qs q
    proof -
      have "\<forall>m\<in>set (targets q i). spouse m \<noteq> None"
        using FamilyMember.prems False e q by auto
      then show ?thesis
        using FamilyMember.IH(1) [of qs q] e q by simp
    qed
    have ps1: "\<And>qs. ps = Some qs \<Longrightarrow> map (\<lambda>p. fst (addSpouseToNode newId p i)) qs = qs"
      using ps by (auto intro!: map_idI)
    have ps2: "\<And>qs. ps = Some qs \<Longrightarrow>
        concat (map (\<lambda>p. snd (addSpouseToNode newId p i)) qs)
        = replicate (length (concat (map (\<lambda>q. targets q i) qs))) ?a"
    proof -
      fix qs assume e: "ps = Some qs"
      have "\<And>xs. set xs \<subseteq> set qs \<Longrightarrow> concat (map (\<lambda>p. snd (addSpouseToNode newId p i)) xs)
        = replicate (length (concat (map (\<lambda>q. targets q i) xs))) ?a"
      proof -
        fix xs show "set xs \<subseteq> set qs \<Longrightarrow> concat (map (\<lambda>p. snd (addSpouseToNode newId p i)) xs)
        = replicate (length (concat (map (\<lambda>q. targets q i) xs))) ?a"
          by (induction xs) (auto simp: ps [OF e] replicate_add simp del: addSpouseToNode.simps)
      qed
      then show "concat (map (\<lambda>p. snd (addSpouseToNode newId p i)) qs)
        = replicate (length (concat (map (\<lambda>q. targets q i) qs))) ?a" by simp
    qed
    from False show ?thesis
      by (cases sp; cases ps)
         (simp_all add: addSpouse_miss sp ps1 ps2 replicate_add del: addSpouseToNode.simps)
  qed
qed


lemma targets_idM: "m \<in> set (targets t i) \<Longrightarrow> idM m = i"
  by (induction t) (auto split: if_splits option.splits)

lemma targets_addSpouse:
  "targets (fst (addSpouseToNode newId t i)) i
   = map (\<lambda>m. fst (addSpouseToNode newId m i)) (targets t i)"
proof (induction t)
  case (FamilyMember j n y u r ps sp)
  show ?case
  proof (cases "j = i")
    case True
    then show ?thesis
      by (simp add: targets_hit idM_addSpouse del: addSpouseToNode.simps targets.simps)
  next
    case False
    have sp: "\<And>s. sp = Some s \<Longrightarrow>
        targets (fst (addSpouseToNode newId s i)) i
        = map (\<lambda>m. fst (addSpouseToNode newId m i)) (targets s i)"
      using FamilyMember.IH(2) by simp
    have ps: "\<And>qs. ps = Some qs \<Longrightarrow>
        map (\<lambda>q. targets (fst (addSpouseToNode newId q i)) i) qs
        = map (\<lambda>q. map (\<lambda>m. fst (addSpouseToNode newId m i)) (targets q i)) qs"
      using FamilyMember.IH(1) by simp
    from False show ?thesis
      by (cases sp; cases ps)
         (simp_all add: addSpouse_miss targets_miss sp ps comp_def map_concat
            del: addSpouseToNode.simps targets.simps)
  qed
qed

lemma find_concat_targets:
  assumes "\<And>q. q \<in> set qs \<Longrightarrow>
             findNode q i = (if targets q i = [] then None else Some (hd (targets q i)))"
  shows "find (\<lambda>n. idM n = i) (concat (map flatten qs))
         = (if concat (map (\<lambda>q. targets q i) qs) = [] then None
            else Some (hd (concat (map (\<lambda>q. targets q i) qs))))"
  using assms
proof (induction qs)
  case Nil
  then show ?case by simp
next
  case (Cons q qs)
  have hd: "find (\<lambda>n. idM n = i) (flatten q) = (if targets q i = [] then None else Some (hd (targets q i)))"
    using Cons.prems [of q] by (simp add: findNode_def)
  have tl: "find (\<lambda>n. idM n = i) (concat (map flatten qs))
         = (if concat (map (\<lambda>q. targets q i) qs) = [] then None
            else Some (hd (concat (map (\<lambda>q. targets q i) qs))))"
    by (rule Cons.IH) (simp add: Cons.prems)
  show ?case
    by (simp add: find_app hd tl hd_append)
qed

lemma findNode_targets:
  "findNode t i = (if targets t i = [] then None else Some (hd (targets t i)))"
proof (induction t)
  case (FamilyMember j n y u r ps sp)
  show ?case
  proof (cases "j = i")
    case True
    then show ?thesis by (simp add: findNode_hit)
  next
    case False
    have sp: "\<And>s. sp = Some s \<Longrightarrow>
        findNode s i = (if targets s i = [] then None else Some (hd (targets s i)))"
      using FamilyMember.IH(2) by simp
    have ps: "\<And>qs. ps = Some qs \<Longrightarrow>
        find (\<lambda>n. idM n = i) (concat (map flatten qs))
         = (if concat (map (\<lambda>q. targets q i) qs) = [] then None
            else Some (hd (concat (map (\<lambda>q. targets q i) qs))))"
      using FamilyMember.IH(1) by (intro find_concat_targets) simp
    from False show ?thesis
      by (cases sp; cases ps)
         (simp_all add: findNode_miss sp ps hd_append)
  qed
qed

lemma length_concat_filter_le:
  assumes "\<And>q. q \<in> set qs \<Longrightarrow> length (f q) \<le> length (filter P (g q))"
  shows "length (concat (map f qs)) \<le> length (filter P (concat (map g qs)))"
  using assms by (induction qs) (auto intro: add_mono)

lemma ids_node_list:
  "ids (FamilyMember j n y u r ps sp) =
     j # (case sp of None \<Rightarrow> [] | Some s \<Rightarrow> ids s)
       @ (case ps of None \<Rightarrow> [] | Some qs \<Rightarrow> concat (map ids qs))"
  by (simp add: ids_def [abs_def] map_concat comp_def split: option.splits)

lemma length_targets_le:
  "length (targets t i) \<le> length (filter (\<lambda>x. x = i) (ids t))"
proof (induction t)
  case (FamilyMember j n y u r ps sp)
  have sp: "\<And>s. sp = Some s \<Longrightarrow> length (targets s i) \<le> length (filter (\<lambda>x. x = i) (ids s))"
    using FamilyMember.IH(2) by simp
  have ps: "\<And>qs. ps = Some qs \<Longrightarrow>
      length (concat (map (\<lambda>q. targets q i) qs))
      \<le> length (filter (\<lambda>x. x = i) (concat (map ids qs)))"
    using FamilyMember.IH(1) by (intro length_concat_filter_le) simp
  show ?case
    by (cases sp; cases ps) (auto simp: ids_node_list dest!: sp ps intro: add_mono le_SucI trans_le_add2)
qed

lemma distinct_filter_eq_le1: "distinct xs \<Longrightarrow> length (filter (\<lambda>x. x = i) xs) \<le> 1"
  by (induction xs) (auto simp: filter_empty_conv)

lemma targets_unique:
  assumes "distinct (ids t)" and "findNode t i = Some n"
  shows "targets t i = [n]"
proof -
  have "length (targets t i) \<le> 1"
    using length_targets_le [of t i] distinct_filter_eq_le1 [OF assms(1), of i] by simp
  moreover have "(if targets t i = [] then None else Some (hd (targets t i))) = Some n"
    using assms(2) by (simp add: findNode_targets)
  ultimately show ?thesis
    by (cases "targets t i") (auto split: if_splits)
qed


lemma addSpouse_alerts:
  "snd (addSpouseToNode newId t i) =
     replicate (length (filter (\<lambda>m. spouse m \<noteq> None) (targets t i)))
       (Alert ''This member already has a spouse.'')"
proof (induction t)
  case (FamilyMember j n y u r ps sp)
  let ?a = "Alert ''This member already has a spouse.''"
  show ?case
  proof (cases "j = i")
    case True
    then show ?thesis
      by (cases sp) (simp_all add: addSpouse_hit del: addSpouseToNode.simps)
  next
    case False
    have sp: "\<And>s. sp = Some s \<Longrightarrow>
        snd (addSpouseToNode newId s i)
        = replicate (length (filter (\<lambda>m. spouse m \<noteq> None) (targets s i))) ?a"
      using FamilyMember.IH(2) by simp
    have ps: "concat (map (\<lambda>p. snd (addSpouseToNode newId p i)) qs)
        = replicate (length (filter (\<lambda>m. spouse m \<noteq> None)
                      (concat (map (\<lambda>q. targets q i) qs)))) ?a"
      if e: "ps = Some qs" for qs
    proof -
      have "set xs \<subseteq> set qs \<Longrightarrow> concat (map (\<lambda>p. snd (addSpouseToNode newId p i)) xs)
        = replicate (length (filter (\<lambda>m. spouse m \<noteq> None)
                      (concat (map (\<lambda>q. targets q i) xs)))) ?a" for xs
      proof (induction xs)
        case Nil
        then show ?case by simp
      next
        case (Cons x xs)
        have "x \<in> set qs" using Cons.prems by simp
        then have "snd (addSpouseToNode newId x i)
          = replicate (length (filter (\<lambda>m. spouse m \<noteq> None) (targets x i))) ?a"
          using FamilyMember.IH(1) [of qs x] e by simp
        then show ?case
          using Cons by (simp add: replicate_add del: addSpouseToNode.simps)
      qed
      then show ?thesis by simp
    qed
    from False show ?thesis
      by (cases sp; cases ps)
         (simp_all add: addSpouse_miss sp ps replicate_add del: addSpouseToNode.simps)
  qed
qed

text \<open>
  C7: with unique ids and the id present: when the node has no spouse,
  \<^verbatim>\<open>addSpouseToNode\<close> gives it a spouse named "New Spouse" with relationship "Spouse" and
  the year of the node, without any alert; when it has one, the tree comes back
  unchanged and the alert "This member already has a spouse." is raised; and a second
  call for the same id is always such a refusal.
\<close>

theorem C7_addSpouse_sets_or_refuses:
  "distinct (ids T) \<and> findNode T i = Some n \<longrightarrow>
     (spouse n = None \<longrightarrow>
        snd (addSpouseToNode newId T i) = [] \<and>
        findNode (fst (addSpouseToNode newId T i)) i =
          Some (FamilyMember (idM n) (name n) (year n) (imageUrl n) (relationship n) (parents n)
                  (Some (FamilyMember newId ''New Spouse'' (year n) ''https://picsum.photos/200''
                           (Some ''Spouse'') (Some []) None)))) \<and>
     (spouse n \<noteq> None \<longrightarrow>
        addSpouseToNode newId T i = (T, [Alert ''This member already has a spouse.''])) \<and>
     addSpouseToNode newId' (fst (addSpouseToNode newId T i)) i =
       (fst (addSpouseToNode newId T i), [Alert ''This member already has a spouse.''])"
proof (intro impI)
  assume a: "distinct (ids T) \<and> findNode T i = Some n"
  let ?al = "Alert ''This member already has a spouse.''"
  let ?T1 = "fst (addSpouseToNode newId T i)"
  have tg: "targets T i = [n]"
    using a by (simp add: targets_unique)
  have idn: "idM n = i"
    using tg targets_idM [of n T i] by simp
  have none: "snd (addSpouseToNode newId T i) = [] \<and>
        findNode ?T1 i =
          Some (FamilyMember (idM n) (name n) (year n) (imageUrl n) (relationship n) (parents n)
                  (Some (FamilyMember newId ''New Spouse'' (year n) ''https://picsum.photos/200''
                           (Some ''Spouse'') (Some []) None)))"
    if s: "spouse n = None"
  proof -
    have "snd (addSpouseToNode newId T i) = []"
      using s by (simp add: addSpouse_alerts tg)
    moreover have "findNode ?T1 i = Some (fst (addSpouseToNode newId n i))"
      using a by (simp add: addSpouse_find del: addSpouseToNode.simps)
    ultimately show ?thesis
      using s idn by (simp add: addSpouse_hit newSpouse_def del: addSpouseToNode.simps)
  qed
  have some: "addSpouseToNode newId T i = (T, [?al])" if s: "spouse n \<noteq> None"
    using s addSpouse_refused [of T i newId] by (simp add: tg)
  have tg1: "targets ?T1 i = [fst (addSpouseToNode newId n i)]"
    by (simp add: targets_addSpouse tg del: addSpouseToNode.simps)
  have "spouse (fst (addSpouseToNode newId n i)) \<noteq> None"
    using idn by (cases "spouse n") (simp_all add: addSpouse_hit del: addSpouseToNode.simps)
  then have again: "addSpouseToNode newId' ?T1 i = (?T1, [?al])"
    using addSpouse_refused [of ?T1 i newId'] by (simp add: tg1 del: addSpouseToNode.simps)
  show "(spouse n = None \<longrightarrow>
        snd (addSpouseToNode newId T i) = [] \<and>
        findNode (fst (addSpouseToNode newId T i)) i =
          Some (FamilyMember (idM n) (name n) (year n) (imageUrl n) (relationship n) (parents n)
                  (Some (FamilyMember newId ''New Spouse'' (year n) ''https://picsum.photos/200''
                           (Some ''Spouse'') (Some []) None)))) \<and>
     (spouse n \<noteq> None \<longrightarrow>
        addSpouseToNode newId T i = (T, [Alert ''This member already has a spouse.''])) \<and>
     addSpouseToNode newId' (fst (addSpouseToNode newId T i)) i =
       (fst (addSpouseToNode newId T i), [Alert ''This member already has a spouse.''])"
    using none some again by blast
qed

theorem C7_addSpouse_witness:
  "distinct (ids INITIAL_DATA) \<and>
   findNode INITIAL_DATA ''p2'' =
     Some (FamilyMember ''p2'' ''Arthur Legacy'' ''1928'' ''https://picsum.photos/id/1025/200/200''
            (Some ''Father'') (Some []) None) \<and>
   findNode (fst (addSpouseToNode ''spouse-1'' INITIAL_DATA ''p2'')) ''p2'' =
     Some (FamilyMember ''p2'' ''Arthur Legacy'' ''1928'' ''https://picsum.photos/id/1025/200/200''
            (Some ''Father'') (Some [])
            (Some (FamilyMember ''spouse-1'' ''New Spouse'' ''1928'' ''https://picsum.photos/200''
                     (Some ''Spouse'') (Some []) None))) \<and>
   addSpouseToNode ''spouse-2'' (fst (addSpouseToNode ''spouse-1'' INITIAL_DATA ''p2'')) ''p2'' =
     (fst (addSpouseToNode ''spouse-1'' INITIAL_DATA ''p2''),
      [Alert ''This member already has a spouse.'']) \<and>
   distinct (ids (FamilyMember ''a'' ''Ann'' ''1950'' [] None None
                    (Some (FamilyMember ''b'' ''Bob'' ''1949'' [] (Some ''Spouse'') (Some []) None)))) \<and>
   addSpouseToNode ''spouse-3''
       (FamilyMember ''a'' ''Ann'' ''1950'' [] None None
          (Some (FamilyMember ''b'' ''Bob'' ''1949'' [] (Some ''Spouse'') (Some []) None))) ''a'' =
     (FamilyMember ''a'' ''Ann'' ''1950'' [] None None
        (Some (FamilyMember ''b'' ''Bob'' ''1949'' [] (Some ''Spouse'') (Some []) None)),
      [Alert ''This member already has a spouse.''])"
proof -
  let ?p2 = "FamilyMember ''p2'' ''Arthur Legacy'' ''1928'' ''https://picsum.photos/id/1025/200/200''
            (Some ''Father'') (Some []) None"
  let ?ann = "FamilyMember ''a'' ''Ann'' ''1950'' [] None None
          (Some (FamilyMember ''b'' ''Bob'' ''1949'' [] (Some ''Spouse'') (Some []) None))"
  have d1: "distinct (ids INITIAL_DATA)"
    by (simp add: ids_def INITIAL_DATA_def)
  have f1: "findNode INITIAL_DATA ''p2'' = Some ?p2"
    by (simp add: findNode_def INITIAL_DATA_def)
  have d2: "distinct (ids ?ann)"
    by (simp add: ids_def)
  have f2: "findNode ?ann ''a'' = Some ?ann"
    by (simp add: findNode_def)
  have r1: "findNode (fst (addSpouseToNode ''spouse-1'' INITIAL_DATA ''p2'')) ''p2'' =
     Some (FamilyMember ''p2'' ''Arthur Legacy'' ''1928'' ''https://picsum.photos/id/1025/200/200''
            (Some ''Father'') (Some [])
            (Some (FamilyMember ''spouse-1'' ''New Spouse'' ''1928'' ''https://picsum.photos/200''
                     (Some ''Spouse'') (Some []) None))) \<and>
     addSpouseToNode ''spouse-2'' (fst (addSpouseToNode ''spouse-1'' INITIAL_DATA ''p2'')) ''p2'' =
     (fst (addSpouseToNode ''spouse-1'' INITIAL_DATA ''p2''),
      [Alert ''This member already has a spouse.''])"
    using d1 f1
      C7_addSpouse_sets_or_refuses [of INITIAL_DATA "''p2''" ?p2 "''spouse-1''" "''spouse-2''"]
    by (simp del: addSpouseToNode.simps)
  have r2: "addSpouseToNode ''spouse-3'' ?ann ''a'' =
     (?ann, [Alert ''This member already has a spouse.''])"
    using d2 f2
      C7_addSpouse_sets_or_refuses [of ?ann "''a''" ?ann "''spouse-3''" "''spouse-4''"]
    by (simp del: addSpouseToNode.simps)
  from d1 f1 r1 d2 r2 show ?thesis by blast
qed

subsection \<open>Rounding to double precision\<close>





lemma bitlen_floor_eq:
  fixes y :: real
  assumes "2 ^ e \<le> y" and "y < 2 ^ Suc e"
  shows "nat (bitlen \<lfloor>y\<rfloor> - 1) = e"
proof -
  let ?m = "\<lfloor>y\<rfloor>"
  have lo: "2 ^ e \<le> ?m"
    using assms(1) by (simp add: le_floor_iff)
  have hi: "?m < 2 ^ Suc e"
    using assms(2) by (simp add: floor_less_iff)
  have "bitlen ?m \<le> int (Suc e)"
    unfolding bitlen_le_iff_power using hi by (simp del: of_nat_Suc power_Suc)
  moreover have "int (Suc e) \<le> bitlen ?m"
    unfolding bitlen_ge_iff_power using lo by (simp del: of_nat_Suc)
  ultimately have "bitlen ?m = int (Suc e)" by simp
  then show ?thesis by simp
qed

lemma flPos_scaled:
  fixes C :: real
  assumes "0 < C" and "0 < B"
  shows "of_int (roundEven (x * (A * C) / (B * C))) * (B * C) / (A * C)
         = of_int (roundEven (x * A / B)) * B / A"
  using assms by simp

lemma flPos_ge1:
  assumes "2 ^ k \<le> x" and "x < 2 ^ Suc k"
  shows "flPos x = of_int (roundEven (x * 2 ^ 52 / 2 ^ k)) * 2 ^ k / 2 ^ 52"
proof -
  define C :: real where "C = 2 ^ 1022"
  have C: "0 < C" by (simp add: C_def)
  have "2 ^ k * C \<le> x * C"
    using assms(1) C by simp
  then have lo: "2 ^ (k + 1022) \<le> x * 2 ^ 1022"
    by (simp only: power_add C_def)
  have "x * C < 2 ^ Suc k * C"
    using assms(2) C by simp
  then have hi: "x * 2 ^ 1022 < 2 ^ Suc (k + 1022)"
    by (simp only: power_add C_def add_Suc [symmetric])
  have b: "binade x = k + 1022"
    unfolding binade_def by (rule bitlen_floor_eq [OF lo hi])
  have p: "(2::real) ^ 1074 = 2 ^ 52 * C"
    unfolding C_def by (simp only: power_add [symmetric]) simp
  have q: "(2::real) ^ (k + 1022) = 2 ^ k * C"
    by (simp only: power_add C_def)
  show ?thesis
    unfolding flPos_def b p q by (rule flPos_scaled [OF C]) simp
qed

lemma flPos_half:
  assumes "1 / 2 \<le> x" and "x < 1"
  shows "flPos x = of_int (roundEven (x * 2 ^ 53)) / 2 ^ 53"
proof -
  define C :: real where "C = 2 ^ 1021"
  have C: "0 < C" by (simp add: C_def)
  have c2: "(2::real) ^ 1022 = 2 * C"
    unfolding C_def by (simp only: power_Suc [symmetric]) simp
  have "1 * C \<le> x * (2 * C)"
    using assms(1) C by simp
  then have lo: "2 ^ 1021 \<le> x * 2 ^ 1022"
    by (simp only: c2 mult_1 C_def)
  have "x * (2 * C) < 2 * C"
    using assms(2) C by simp
  then have hi: "x * 2 ^ 1022 < 2 ^ Suc 1021"
    by (simp only: c2 power_Suc C_def)
  have b: "binade x = 1021"
    unfolding binade_def by (rule bitlen_floor_eq [OF lo hi])
  have p: "(2::real) ^ 1074 = 2 ^ 53 * C"
    unfolding C_def by (simp only: power_add [symmetric]) simp
  have "of_int (roundEven (x * (2 ^ 53 * C) / (1 * C))) * (1 * C) / (2 ^ 53 * C)
         = of_int (roundEven (x * 2 ^ 53 / 1)) * 1 / 2 ^ 53"
    by (rule flPos_scaled [OF C]) simp
  then show ?thesis
    unfolding flPos_def b p by (simp only: mult_1 div_by_1 mult_1_right C_def)
qed

lemma fl_ge1:
  assumes "2 ^ k \<le> x" and "x < 2 ^ Suc k"
  shows "fl x = of_int (roundEven (x * 2 ^ 52 / 2 ^ k)) * 2 ^ k / 2 ^ 52"
proof -
  have "(0::real) < 2 ^ k" by simp
  then have "0 < x" using assms(1) by linarith
  then show ?thesis using flPos_ge1 [OF assms] by (simp add: fl_def)
qed


lemma c11: "fl (11 / 10) = 2476979795053773 / 2251799813685248"
  by (simp add: fl_ge1 [of 0] roundEven_def Let_def)


lemma c08n: "fl (4 / 5) = 3602879701896397 / 4503599627370496"
  by (simp add: fl_def flPos_half roundEven_def Let_def)

lemma c08: "fl (8 / 10) = 3602879701896397 / 4503599627370496"
  by (simp add: c08n)





lemma p1: "fadd (fl (11 / 10)) (fl (8 / 10)) = 8556839292003943 / 4503599627370496"
  by (simp add: fadd_def c11 c08n fl_ge1 [of 0] roundEven_def Let_def)

lemma p2: "fadd (8556839292003943 / 4503599627370496) (fl (8 / 10))
           = 3039929748475085 / 1125899906842624"
  by (simp add: fadd_def c08n fl_ge1 [of 1] roundEven_def Let_def)







lemmas fl_eval = fl_def flPos_ge1 [of 0] flPos_ge1 [of 1] flPos_ge1 [of 2] flPos_ge1 [of 9]
  flPos_half roundEven_def Let_def fadd_def fdiv_def fsub_def orZero_def



lemma sep_without_plus_increment_val:
  "fadd (2308094809027379 / 562949953421312) (fl (8 / 10))
   = 5516909543528857 / 1125899906842624"
  by (simp add: fl_eval)

lemma sep_difference_val:
  "fsub (2758454771764429 / 562949953421312) (2308094809027379 / 562949953421312)
   = 225179981368525 / 281474976710656"
  by (simp add: fl_eval)



subsection \<open>The expansion toggle\<close>

lemma set_foldl_Set_add: "set (foldl Set_add acc xs) = set acc \<union> set xs"
  by (induction xs arbitrary: acc) (auto simp: Set_add_def)

lemma distinct_foldl_Set_add: "distinct acc \<Longrightarrow> distinct (foldl Set_add acc xs)"
  by (induction xs arbitrary: acc) (auto simp: Set_add_def)

lemma set_Set_new: "set (Set_new xs) = set xs"
  by (simp add: Set_new_def set_foldl_Set_add)

lemma distinct_Set_new: "distinct (Set_new xs)"
  by (simp add: Set_new_def distinct_foldl_Set_add)

lemma set_toggleSpouse:
  "set (toggleSpouse S i) = (if i \<in> set S then set S - {i} else insert i (set S))"
  by (auto simp: toggleSpouse_def Let_def Set_has_def Set_delete_def Set_add_def set_Set_new)

text \<open>
  C10: \<^verbatim>\<open>toggleSpouse\<close> flips the membership of the id and of no other id: the new set is
  the old one without the id when it was a member and with it otherwise; toggling the
  same id twice gives a set with the elements of the original.
\<close>

theorem C10_toggle_flips_membership:
  "(i \<in> set S \<longrightarrow> set (toggleSpouse S i) = set S - {i}) \<and>
   (i \<notin> set S \<longrightarrow> set (toggleSpouse S i) = insert i (set S)) \<and>
   (\<forall>j. j \<noteq> i \<longrightarrow> (j \<in> set (toggleSpouse S i) \<longleftrightarrow> j \<in> set S)) \<and>
   set (toggleSpouse (toggleSpouse S i) i) = set S \<and>
   distinct (toggleSpouse S i)"
proof -
  have d: "distinct (toggleSpouse S i)"
    by (simp add: toggleSpouse_def Let_def Set_has_def Set_delete_def Set_add_def
        distinct_Set_new set_Set_new distinct_removeAll)
  have "set (toggleSpouse (toggleSpouse S i) i) = set S"
    by (auto simp: set_toggleSpouse)
  then show ?thesis
    using d by (auto simp: set_toggleSpouse)
qed

theorem C10_toggle_witness:
  "''s1'' \<in> set [''s1'', ''s2''] \<and>
   set (toggleSpouse [''s1'', ''s2''] ''s1'') = {''s2''} \<and>
   ''s3'' \<notin> set [''s1'', ''s2''] \<and>
   set (toggleSpouse [''s1'', ''s2''] ''s3'') = {''s1'', ''s2'', ''s3''} \<and>
   (''s2'' \<in> set (toggleSpouse [''s1'', ''s2''] ''s1'')) = (''s2'' \<in> set [''s1'', ''s2'']) \<and>
   set (toggleSpouse (toggleSpouse [''s1'', ''s2''] ''s1'') ''s1'') = {''s1'', ''s2''}"
proof -
  have a: "''s1'' \<in> set [''s1'', ''s2'']" by simp
  have b: "''s3'' \<notin> set [''s1'', ''s2'']" by simp
  have c: "''s2'' \<noteq> ''s1''" by simp
  from a b c
    C10_toggle_flips_membership [of "''s1''" "[''s1'', ''s2'']"]
    C10_toggle_flips_membership [of "''s3''" "[''s1'', ''s2'']"]
  show ?thesis by auto
qed

end
